theory Spec2Isabelle
  imports
    Main
    "HOL-Library.Char_ord"
    "HOL-Library.List_Lexorder"
    "HOL-Library.Sublist"
begin

section \<open>The Writer of the Java AST library\<close>

text \<open>
  The development embeds \<^verbatim>\<open>libs/java-ast/src/lib/core/Writer.ts\<close> and
  \<^verbatim>\<open>libs/java-ast/src/lib/ast/Class.ts\<close>. A JavaScript string is a
  \<^typ>\<open>string\<close>, each \<^typ>\<open>char\<close> standing for one code unit; the default order
  of \<^verbatim>\<open>Array.prototype.sort\<close> (code unit by code unit, a proper prefix first) is
  the lexicographic order of \<^typ>\<open>char list\<close>.
  \<^verbatim>\<open>Writer.formatCode\<close>, a pure function on strings that no other method
  calls, is not part of the development.
\<close>

subsection \<open>Strings\<close>

text \<open>The one-character string \<^verbatim>\<open>"\n"\<close>.\<close>

definition nl :: string where
  "nl = [CHR 0x0A]"

text \<open>
  \<^verbatim>\<open>String.prototype.repeat\<close>. A negative count raises a RangeError in JavaScript;
  the only caller passes \<^verbatim>\<open>indentLevel\<close>, which no operation makes negative, and
  the model reads a negative count as zero.
\<close>

definition repeat :: "string \<Rightarrow> int \<Rightarrow> string" where
  "repeat s n = concat (replicate (nat n) s)"

subsection \<open>Insertion-ordered sets of strings\<close>

text \<open>
  A JavaScript \<^verbatim>\<open>Set<string>\<close> keeps its elements in insertion order and ignores
  the insertion of a member: a list without duplicates.
\<close>

definition Set_add :: "string list \<Rightarrow> string \<Rightarrow> string list" where
  "Set_add s x = (if x \<in> set s then s else s @ [x])"

text \<open>\<^verbatim>\<open>new Set<string>(iterable)\<close> adds the elements one after the other.\<close>

definition Set_new :: "string list \<Rightarrow> string list" where
  "Set_new xs = foldl Set_add [] xs"

subsection \<open>State\<close>

text \<open>
  Of a \<^verbatim>\<open>ClassReference\<close>, declared in another module, the Writer and the class
  read \<^verbatim>\<open>name\<close> and \<^verbatim>\<open>packageName\<close>.
\<close>

record ClassReference =
  ref_name :: string
  ref_packageName :: string

record WriterConfig =
  cfg_packageName :: string
  cfg_skipPackageDeclaration :: "bool option"

text \<open>
  \<^verbatim>\<open>indentLevel\<close> is a JavaScript number that is only ever incremented and
  decremented by one: an \<^typ>\<open>int\<close>.
\<close>

record Writer =
  indentLevel :: int
  buffer :: string
  "imports" :: "string list"
  references :: "string list"
  packageName :: string
  skipPackageDeclaration :: bool

text \<open>The constructor; \<^verbatim>\<open>config.skipPackageDeclaration || false\<close>.\<close>

definition Writer_new :: "WriterConfig \<Rightarrow> Writer" where
  "Writer_new config =
     \<lparr>indentLevel = 0, buffer = [], imports = [], references = [],
      packageName = cfg_packageName config,
      skipPackageDeclaration =
        (case cfg_skipPackageDeclaration config of Some b \<Rightarrow> b | None \<Rightarrow> False)\<rparr>"

subsection \<open>Primitive operations\<close>

definition indent :: "Writer \<Rightarrow> Writer" where
  "indent w = w\<lparr>indentLevel := indentLevel w + 1\<rparr>"

definition dedent :: "Writer \<Rightarrow> Writer" where
  "dedent w = (if indentLevel w > 0 then w\<lparr>indentLevel := indentLevel w - 1\<rparr> else w)"

definition "write" :: "Writer \<Rightarrow> string \<Rightarrow> Writer" where
  "write w text = w\<lparr>buffer := buffer w @ text\<rparr>"

definition getIndentation :: "Writer \<Rightarrow> string" where
  "getIndentation w = repeat ''    '' (indentLevel w)"

text \<open>\<^verbatim>\<open>writeLine(text?)\<close>: the optional argument is an \<^typ>\<open>string option\<close>.\<close>

definition writeLine :: "Writer \<Rightarrow> string option \<Rightarrow> Writer" where
  "writeLine w text =
     (let w1 = (case text of
                  Some t \<Rightarrow> w\<lparr>buffer := buffer w @ getIndentation w @ t\<rparr>
                | None \<Rightarrow> w)
      in w1\<lparr>buffer := buffer w1 @ nl\<rparr>)"

definition newLine :: "Writer \<Rightarrow> Writer" where
  "newLine w = w\<lparr>buffer := buffer w @ nl\<rparr>"

definition writeNewLineIfLastLineNot :: "Writer \<Rightarrow> Writer" where
  "writeNewLineIfLastLineNot w =
     (if length (buffer w) > 0 \<and> [buffer w ! (length (buffer w) - 1)] \<noteq> nl
      then w\<lparr>buffer := buffer w @ nl\<rparr>
      else w)"

definition addReference :: "Writer \<Rightarrow> ClassReference \<Rightarrow> Writer" where
  "addReference w reference =
     (if ref_packageName reference = packageName w then w
      else w\<lparr>references :=
             Set_add (references w) (ref_packageName reference @ ''.'' @ ref_name reference)\<rparr>)"

definition addImport :: "Writer \<Rightarrow> string \<Rightarrow> Writer" where
  "addImport w importName = w\<lparr>imports := Set_add (imports w) importName\<rparr>"

text \<open>
  A node is its \<^verbatim>\<open>write(writer)\<close> method: the Writer is mutated in place, so the
  method is a function from the state before to the state after.
\<close>

type_synonym node = "Writer \<Rightarrow> Writer"

definition writeNode :: "Writer \<Rightarrow> node \<Rightarrow> Writer" where
  "writeNode w n = n w"

subsection \<open>The rendered document\<close>

text \<open>\<^verbatim>\<open>[...new Set<string>([...this.imports, ...this.references])]\<close>\<close>

definition allImports :: "Writer \<Rightarrow> string list" where
  "allImports w = Set_new (imports w @ references w)"

text \<open>The template literal of the import loop: one line of the import block.\<close>

definition importLine :: "string \<Rightarrow> string" where
  "importLine importName = ''import '' @ importName @ '';'' @ nl"

definition toString :: "Writer \<Rightarrow> string" where
  "toString w =
     (let result = [];
          result = (if \<not> skipPackageDeclaration w
                    then result @ ''package '' @ packageName w @ '';'' @ nl @ nl
                    else result);
          result = foldl (\<lambda>r importName. r @ importLine importName)
                     result (sort (allImports w));
          result = (if length (allImports w) > 0 then result @ nl else result);
          result = result @ buffer w
      in result)"

subsection \<open>Sequences of operations\<close>

text \<open>
  The public operations that change the Writer, as data, and a sequence of calls as a fold
  over them. \<^verbatim>\<open>writeNode\<close> hands the Writer to a node, which in turn calls these
  operations.
\<close>

datatype wop =
    Indent
  | Dedent
  | Write string
  | WriteLine "string option"
  | NewLine
  | WriteNewLineIfLastLineNot
  | AddReference ClassReference
  | AddImport string

fun step :: "Writer \<Rightarrow> wop \<Rightarrow> Writer" where
  "step w Indent = indent w"
| "step w Dedent = dedent w"
| "step w (Write t) = write w t"
| "step w (WriteLine t) = writeLine w t"
| "step w NewLine = newLine w"
| "step w WriteNewLineIfLastLineNot = writeNewLineIfLastLineNot w"
| "step w (AddReference r) = addReference w r"
| "step w (AddImport i) = addImport w i"

definition run :: "Writer \<Rightarrow> wop list \<Rightarrow> Writer" where
  "run w ops = foldl step w ops"

text \<open>An operation that registers a reference of the package \<open>pkg\<close>.\<close>

fun samePackageReference :: "string \<Rightarrow> wop \<Rightarrow> bool" where
  "samePackageReference pkg (AddReference r) = (ref_packageName r = pkg)"
| "samePackageReference pkg _ = False"

text \<open>
  An operation that registers the fully-qualified name \<open>fqn\<close> on a Writer of the
  package \<open>pkg\<close>: an explicit import of it, or a reference of another package that
  denotes it.
\<close>

fun registers :: "string \<Rightarrow> string \<Rightarrow> wop \<Rightarrow> bool" where
  "registers pkg fqn (AddImport i) = (i = fqn)"
| "registers pkg fqn (AddReference r) =
     (ref_packageName r \<noteq> pkg \<and> ref_packageName r @ ''.'' @ ref_name r = fqn)"
| "registers pkg fqn _ = False"

text \<open>The lines of the import block, in the order in which \<open>toString\<close> emits them.\<close>

definition importBlock :: "Writer \<Rightarrow> string list" where
  "importBlock w = map importLine (sort (allImports w))"

section \<open>The Class node\<close>

subsection \<open>JavaScript helpers\<close>

text \<open>
  A condition on an optional string (\<^verbatim>\<open>if (this.javadoc)\<close>) holds when the string is
  defined and not empty.
\<close>

definition truthy :: "string option \<Rightarrow> bool" where
  "truthy s = (case s of Some t \<Rightarrow> t \<noteq> [] | None \<Rightarrow> False)"

text \<open>\<^verbatim>\<open>s.split(sep)\<close> for a separator of one character.\<close>

fun split_on :: "char \<Rightarrow> string \<Rightarrow> string list" where
  "split_on sep [] = [[]]"
| "split_on sep (c # cs) =
     (if c = sep then [] # split_on sep cs
      else (case split_on sep cs of
              l # ls \<Rightarrow> (c # l) # ls
            | [] \<Rightarrow> [[c]]))"

text \<open>\<^verbatim>\<open>xs.join(sep)\<close>\<close>

fun join :: "string \<Rightarrow> string list \<Rightarrow> string" where
  "join sep [] = []"
| "join sep [x] = x"
| "join sep (x # y # ys) = x @ sep @ join sep (y # ys)"

subsection \<open>Data\<close>

text \<open>
  \<^verbatim>\<open>Annotation\<close>, \<^verbatim>\<open>Field\<close>, \<^verbatim>\<open>Method\<close>, \<^verbatim>\<open>Interface\<close>,
  \<^verbatim>\<open>Enum\<close> and \<^verbatim>\<open>CodeBlock\<close> are node classes declared in other modules;
  \<^verbatim>\<open>Class\<close> only calls their \<^verbatim>\<open>write\<close> method, so each is a \<^typ>\<open>node\<close>.
  Of a \<^verbatim>\<open>Parameter\<close> the class also reads \<^verbatim>\<open>name\<close> and \<^verbatim>\<open>docs\<close>.
  \<^verbatim>\<open>Access\<close> is a string enum; a value is the string that a template literal
  renders for it.
\<close>

record Parameter =
  param_name :: string
  param_docs :: "string option"
  param_write :: node

text \<open>The interface \<^verbatim>\<open>Class.Constructor\<close>; an optional member is an option.\<close>

record Constructor =
  ctor_body :: "node option"
  ctor_parameters :: "Parameter list"
  ctor_access :: string
  ctor_javadoc :: "string option"
  ctor_annotations :: "node list option"
  ctor_superCall :: "node option"
  ctor_thisCall :: "node option"
  ctor_throws :: "ClassReference list option"

text \<open>The interface \<^verbatim>\<open>Class.Args\<close>.\<close>

record ClassArgs =
  arg_name :: string
  arg_packageName :: string
  arg_access :: string
  arg_abstract :: "bool option"
  arg_final :: "bool option"
  arg_static :: "bool option"
  arg_extends :: "ClassReference option"
  arg_implements :: "ClassReference list option"
  arg_isNestedClass :: "bool option"
  arg_annotations :: "node list option"
  arg_javadoc :: "string option"
  arg_typeParameters :: "string list option"

text \<open>
  The properties of a \<^verbatim>\<open>Class\<close> that its constructor fixes are grouped in a
  record; the six member arrays that the \<^verbatim>\<open>add...\<close> methods grow are arguments of
  the datatype, since \<^verbatim>\<open>nestedClasses\<close> holds classes again. The source's
  \<^verbatim>\<open>abstract_\<close>, \<^verbatim>\<open>final_\<close>, \<^verbatim>\<open>static_\<close>, \<^verbatim>\<open>extends_\<close> and
  \<^verbatim>\<open>implements_\<close> lose the underscore, which a name cannot end with here.
\<close>

record ClassDecl =
  name :: string
  class_packageName :: string
  access :: string
  abstract :: bool
  final :: bool
  static :: bool
  reference :: ClassReference
  isNestedClass :: bool
  extends :: "ClassReference option"
  implements :: "ClassReference list"
  annotations :: "node list"
  javadoc :: "string option"
  typeParameters :: "string list"

datatype Class = Class
  (decl: ClassDecl)
  (fields: "node list")
  (constructors: "Constructor list")
  (methods: "node list")
  (nestedClasses: "Class list")
  (nestedInterfaces: "node list")
  (nestedEnums: "node list")

text \<open>The constructor: \<^verbatim>\<open>abstract_ || false\<close>, \<^verbatim>\<open>implements_ || []\<close>.\<close>

definition Class_new :: "ClassArgs \<Rightarrow> Class" where
  "Class_new args =
     Class
       \<lparr>name = arg_name args,
        class_packageName = arg_packageName args,
        access = arg_access args,
        abstract = (case arg_abstract args of Some b \<Rightarrow> b | None \<Rightarrow> False),
        final = (case arg_final args of Some b \<Rightarrow> b | None \<Rightarrow> False),
        static = (case arg_static args of Some b \<Rightarrow> b | None \<Rightarrow> False),
        reference = \<lparr>ref_name = arg_name args, ref_packageName = arg_packageName args\<rparr>,
        isNestedClass = (case arg_isNestedClass args of Some b \<Rightarrow> b | None \<Rightarrow> False),
        extends = arg_extends args,
        implements = (case arg_implements args of Some rs \<Rightarrow> rs | None \<Rightarrow> []),
        annotations = (case arg_annotations args of Some as \<Rightarrow> as | None \<Rightarrow> []),
        javadoc = arg_javadoc args,
        typeParameters = (case arg_typeParameters args of Some ts \<Rightarrow> ts | None \<Rightarrow> [])\<rparr>
       [] [] [] [] [] []"

fun addField :: "Class \<Rightarrow> node \<Rightarrow> Class" where
  "addField (Class d fs cs ms ncs nis nes) field = Class d (fs @ [field]) cs ms ncs nis nes"

fun addConstructor :: "Class \<Rightarrow> Constructor \<Rightarrow> Class" where
  "addConstructor (Class d fs cs ms ncs nis nes) constructor =
     Class d fs (cs @ [constructor]) ms ncs nis nes"

fun addMethod :: "Class \<Rightarrow> node \<Rightarrow> Class" where
  "addMethod (Class d fs cs ms ncs nis nes) method = Class d fs cs (ms @ [method]) ncs nis nes"

fun addNestedClass :: "Class \<Rightarrow> Class \<Rightarrow> Class" where
  "addNestedClass (Class d fs cs ms ncs nis nes) nestedClass =
     Class d fs cs ms (ncs @ [nestedClass]) nis nes"

fun addNestedInterface :: "Class \<Rightarrow> node \<Rightarrow> Class" where
  "addNestedInterface (Class d fs cs ms ncs nis nes) nestedInterface =
     Class d fs cs ms ncs (nis @ [nestedInterface]) nes"

fun addNestedEnum :: "Class \<Rightarrow> node \<Rightarrow> Class" where
  "addNestedEnum (Class d fs cs ms ncs nis nes) nestedEnum =
     Class d fs cs ms ncs nis (nes @ [nestedEnum])"

subsection \<open>Blocks shared by the class and its constructors\<close>

text \<open>
  \<^verbatim>\<open>javadoc.split("\n").forEach((line) => writer.writeLine(` * ${line}`))\<close>
\<close>

definition writeJavadocLines :: "Writer \<Rightarrow> string \<Rightarrow> Writer" where
  "writeJavadocLines writer doc =
     foldl (\<lambda>w line. writeLine w (Some ('' * '' @ line))) writer (split_on (CHR 0x0A) doc)"

text \<open>Each annotation is written and followed by \<^verbatim>\<open>writeLine()\<close>.\<close>

definition writeAnnotations :: "Writer \<Rightarrow> node list \<Rightarrow> Writer" where
  "writeAnnotations writer as = foldl (\<lambda>w annotation. writeLine (annotation w) None) writer as"

text \<open>
  The loop of the \<^verbatim>\<open>implements\<close> and of the \<^verbatim>\<open>throws\<close> clause: each reference
  is registered, its simple name written, and a comma follows all but the last index.
\<close>

definition writeReferences :: "Writer \<Rightarrow> ClassReference list \<Rightarrow> Writer" where
  "writeReferences writer refs =
     foldl (\<lambda>w (index, r).
              let w = addReference w r;
                  w = write w (ref_name r)
              in if int index < int (length refs) - 1 then write w '', '' else w)
       writer (zip [0..<length refs] refs)"

subsection \<open>writeConstructor\<close>

text \<open>The doc comment of a constructor.\<close>

definition writeConstructorJavadoc :: "Writer \<Rightarrow> Constructor \<Rightarrow> Writer" where
  "writeConstructorJavadoc writer constructor =
     (if truthy (ctor_javadoc constructor)
         \<or> list_ex (\<lambda>param. truthy (param_docs param)) (ctor_parameters constructor)
      then
        (let w = writeLine writer (Some ''/**'');
             w = (case ctor_javadoc constructor of
                    Some doc \<Rightarrow> if doc \<noteq> [] then writeJavadocLines w doc else w
                  | None \<Rightarrow> w);
             w = foldl (\<lambda>w param.
                          case param_docs param of
                            Some docs \<Rightarrow>
                              if docs \<noteq> []
                              then writeLine w
                                     (Some ('' * @param '' @ param_name param @ '' '' @ docs))
                              else w
                          | None \<Rightarrow> w)
                   w (ctor_parameters constructor)
         in writeLine w (Some '' */''))
      else writer)"

text \<open>The parameters between the parentheses, separated by commas.\<close>

definition writeParameters :: "Writer \<Rightarrow> Parameter list \<Rightarrow> Writer" where
  "writeParameters writer ps =
     foldl (\<lambda>w (index, parameter).
              let w = param_write parameter w
              in if int index < int (length ps) - 1 then write w '', '' else w)
       writer (zip [0..<length ps] ps)"

text \<open>
  Everything that \<^verbatim>\<open>writeConstructor\<close> does up to and including the
  \<^verbatim>\<open>indent()\<close> that follows the opening brace. The first argument is
  \<^verbatim>\<open>this.name\<close>.
\<close>

definition writeConstructorHead :: "string \<Rightarrow> Writer \<Rightarrow> Constructor \<Rightarrow> Writer" where
  "writeConstructorHead className writer constructor =
     (let w = writeConstructorJavadoc writer constructor;
          w = (case ctor_annotations constructor of
                 Some as \<Rightarrow> writeAnnotations w as
               | None \<Rightarrow> w);
          w = write w (ctor_access constructor @ '' '' @ className @ ''('');
          w = writeParameters w (ctor_parameters constructor);
          w = write w '')'';
          w = (case ctor_throws constructor of
                 Some ts \<Rightarrow>
                   if length ts > 0 then writeReferences (write w '' throws '') ts else w
               | None \<Rightarrow> w);
          w = writeLine w (Some '' {'')
      in indent w)"

text \<open>The call of \<^verbatim>\<open>super(...)\<close> or \<^verbatim>\<open>this(...)\<close>.\<close>

definition writeConstructorCall :: "Writer \<Rightarrow> Constructor \<Rightarrow> Writer" where
  "writeConstructorCall writer constructor =
     (case ctor_superCall constructor of
        Some superCall \<Rightarrow>
          (let w = write writer ''super('';
               w = superCall w
           in writeLine w (Some '');''))
      | None \<Rightarrow>
          (case ctor_thisCall constructor of
             Some thisCall \<Rightarrow>
               (let w = write writer ''this('';
                    w = thisCall w
                in writeLine w (Some '');''))
           | None \<Rightarrow> writer))"

definition writeConstructor :: "string \<Rightarrow> Writer \<Rightarrow> Constructor \<Rightarrow> Writer" where
  "writeConstructor className writer constructor =
     (let w = writeConstructorHead className writer constructor;
          w = writeConstructorCall w constructor;
          w = (case ctor_body constructor of Some body \<Rightarrow> body w | None \<Rightarrow> w);
          w = dedent w
      in writeLine w (Some ''}''))"

subsection \<open>write\<close>

text \<open>
  Everything that \<^verbatim>\<open>Class.write\<close> does before the member loops: doc comment,
  annotations, the declaration line, the opening brace and \<^verbatim>\<open>indent()\<close>.
\<close>

definition writeClassHead :: "ClassDecl \<Rightarrow> Writer \<Rightarrow> Writer" where
  "writeClassHead d writer =
     (let w = (case javadoc d of
                 Some doc \<Rightarrow>
                   if doc \<noteq> []
                   then writeLine (writeJavadocLines (writeLine writer (Some ''/**'')) doc)
                          (Some '' */'')
                   else writer
               | None \<Rightarrow> writer);
          w = writeAnnotations w (annotations d);
          w = write w (access d @ '' '');
          w = (if abstract d then write w ''abstract '' else w);
          w = (if final d then write w ''final '' else w);
          w = (if static d then write w ''static '' else w);
          w = write w ''class '';
          w = write w (name d);
          w = (if length (typeParameters d) > 0
               then write (write (write w ''<'') (join '', '' (typeParameters d))) ''>''
               else w);
          w = (case extends d of
                 Some e \<Rightarrow> write (addReference (write w '' extends '') e) (ref_name e)
               | None \<Rightarrow> w);
          w = (if length (implements d) > 0
               then writeReferences (write w '' implements '') (implements d)
               else w);
          w = writeLine w (Some '' {'')
      in indent w)"

fun Class_write :: "Class \<Rightarrow> Writer \<Rightarrow> Writer" where
  "Class_write (Class d fs cs ms ncs nis nes) writer =
     (let w = writeClassHead d writer;
          w = foldl (\<lambda>w field. newLine (writeLine (field w) None)) w fs;
          w = foldl (\<lambda>w constructor. newLine (writeConstructor (name d) w constructor)) w cs;
          w = foldl (\<lambda>w method. newLine (method w)) w ms;
          w = foldl (\<lambda>w nestedClass. newLine (Class_write nestedClass w)) w ncs;
          w = foldl (\<lambda>w nestedInterface. newLine (nestedInterface w)) w nis;
          w = foldl (\<lambda>w nestedEnum. newLine (nestedEnum w)) w nes;
          w = dedent w
      in writeLine w (Some ''}''))"

text \<open>
  The body of a class as the specification describes it: the sections in the order fields,
  constructors, methods, nested classes, nested interfaces, nested enums, the members of a
  section in the order of its array, each member written and followed by a new line (a
  field by \<^verbatim>\<open>writeLine()\<close> and a new line). It is compared with the six loops of
  \<open>Class_write\<close> below.
\<close>

definition bodySections :: "Class \<Rightarrow> node list" where
  "bodySections c =
     map (\<lambda>field w. newLine (writeLine (field w) None)) (fields c)
     @ map (\<lambda>constructor w. newLine (writeConstructor (name (decl c)) w constructor))
         (constructors c)
     @ map (\<lambda>method w. newLine (method w)) (methods c)
     @ map (\<lambda>nestedClass w. newLine (Class_write nestedClass w)) (nestedClasses c)
     @ map (\<lambda>nestedInterface w. newLine (nestedInterface w)) (nestedInterfaces c)
     @ map (\<lambda>nestedEnum w. newLine (nestedEnum w)) (nestedEnums c)"

subsection \<open>An example class\<close>

text \<open>
  A constructor that supplies both \<^verbatim>\<open>superCall\<close> and \<^verbatim>\<open>thisCall\<close>, and a
  class with two fields, this constructor, a method and a nested class. The nodes of the
  fields and of the method stand for \<^verbatim>\<open>Field\<close> and \<^verbatim>\<open>Method\<close> objects.
\<close>

definition exampleConstructor :: Constructor where
  "exampleConstructor =
     \<lparr>ctor_body = Some (\<lambda>w. writeLine w (Some ''this.x = x;'')),
      ctor_parameters =
        [\<lparr>param_name = ''x'', param_docs = Some ''the abscissa'',
          param_write = (\<lambda>w. write w ''int x'')\<rparr>],
      ctor_access = ''public'',
      ctor_javadoc = None,
      ctor_annotations = None,
      ctor_superCall = Some (\<lambda>w. write w ''x''),
      ctor_thisCall = Some (\<lambda>w. write w ''0''),
      ctor_throws = Some [\<lparr>ref_name = ''IOException'', ref_packageName = ''java.io''\<rparr>]\<rparr>"

definition exampleArgs :: "string \<Rightarrow> ClassArgs" where
  "exampleArgs n =
     \<lparr>arg_name = n, arg_packageName = ''com.example'', arg_access = ''public'',
      arg_abstract = None, arg_final = None, arg_static = None, arg_extends = None,
      arg_implements = None, arg_isNestedClass = None, arg_annotations = None,
      arg_javadoc = None, arg_typeParameters = None\<rparr>"

definition exampleClass :: Class where
  "exampleClass =
     addNestedClass
       (addMethod
         (addConstructor
           (addField
             (addField (Class_new (exampleArgs ''Point'')) (\<lambda>w. write w ''    int x;''))
             (\<lambda>w. write w ''    int y;''))
           exampleConstructor)
         (\<lambda>w. writeLine w (Some ''int getX() { return x; }'')))
       (Class_new (exampleArgs ''Inner''))"

text \<open>
  An abstract class with two methods whose nodes write a declaration that ends in a
  semicolon and no new line.
\<close>

definition exampleAbstractClass :: Class where
  "exampleAbstractClass =
     addMethod
       (addMethod (Class_new ((exampleArgs ''Shape'')\<lparr>arg_abstract := Some True\<rparr>))
          (\<lambda>w. write w ''public abstract void a();''))
       (\<lambda>w. write w ''public abstract void b();'')"

section \<open>Properties of the Writer\<close>

subsection \<open>Insertion-ordered sets\<close>

lemma set_Set_add: "set (Set_add s x) = insert x (set s)"
  by (auto simp: Set_add_def)

lemma distinct_Set_add: "distinct s \<Longrightarrow> distinct (Set_add s x)"
  by (simp add: Set_add_def)

lemma set_foldl_Set_add: "set (foldl Set_add acc xs) = set acc \<union> set xs"
  by (induction xs arbitrary: acc) (auto simp: set_Set_add)

lemma distinct_foldl_Set_add: "distinct acc \<Longrightarrow> distinct (foldl Set_add acc xs)"
  by (induction xs arbitrary: acc) (auto simp: distinct_Set_add)

lemma set_allImports: "set (allImports w) = set (imports w) \<union> set (references w)"
  by (simp add: allImports_def Set_new_def set_foldl_Set_add)

lemma distinct_allImports: "distinct (allImports w)"
  by (simp add: allImports_def Set_new_def distinct_foldl_Set_add)

lemma allImports_empty_iff:
  "(allImports w = []) = (set (imports w) \<union> set (references w) = {})"
  using set_allImports [of w] by (metis set_empty)

text \<open>Sorting the merged set gives the sorted list of the union, whatever the insertion order.\<close>

lemma sort_allImports:
  "sort (allImports w) = sorted_list_of_set (set (imports w) \<union> set (references w))"
proof -
  have "sort (allImports w) = sort (remdups (allImports w))"
    using distinct_allImports [of w] by (simp add: distinct_remdups_id)
  also have "\<dots> = sorted_list_of_set (set (allImports w))"
    by (simp add: sorted_list_of_set_sort_remdups)
  finally show ?thesis
    by (simp add: set_allImports)
qed

subsection \<open>The shape of the rendered document\<close>

lemma foldl_append_lines: "foldl (\<lambda>r x. r @ f x) acc xs = acc @ concat (map f xs)"
  by (induction xs arbitrary: acc) auto

lemma toString_decomp:
  "toString w =
     (if skipPackageDeclaration w then [] else ''package '' @ packageName w @ '';'' @ nl @ nl)
     @ concat (importBlock w)
     @ (if allImports w = [] then [] else nl)
     @ buffer w"
  by (simp add: toString_def importBlock_def foldl_append_lines Let_def)

lemma importLine_inj: "importLine a = importLine b \<Longrightarrow> a = b"
  by (simp add: importLine_def)

lemma count_list_distinct: "distinct xs \<Longrightarrow> x \<in> set xs \<Longrightarrow> count_list xs x = 1"
  by (induction xs) auto

lemma count_importBlock:
  "count_list (importBlock w) (importLine x)
     = (if x \<in> set (imports w) \<union> set (references w) then 1 else 0)"
proof -
  let ?names = "sort (allImports w)"
  have d: "distinct ?names"
    by (simp add: distinct_allImports)
  have s: "set ?names = set (imports w) \<union> set (references w)"
    by (simp add: set_allImports)
  have "count_list (map importLine ?names) (importLine x) = count_list ?names x"
    by (rule count_list_map_conv) (auto simp: inj_on_def dest: importLine_inj)
  moreover have "count_list ?names x = (if x \<in> set ?names then 1 else 0)"
    using d by (simp add: count_list_distinct count_list_0_iff)
  ultimately show ?thesis
    by (simp add: importBlock_def s del: set_sort)
qed

subsection \<open>What a sequence of operations preserves and registers\<close>

lemma packageName_step: "packageName (step w op) = packageName w"
  by (cases op)
     (simp_all add: indent_def dedent_def write_def writeLine_def newLine_def
        writeNewLineIfLastLineNot_def addReference_def addImport_def Let_def
        split: option.splits)

lemma packageName_run: "packageName (run w ops) = packageName w"
  unfolding run_def by (induction ops arbitrary: w) (simp_all add: packageName_step)

lemma step_samePackageReference:
  "samePackageReference (packageName w) op \<Longrightarrow> step w op = w"
  by (cases op) (simp_all add: addReference_def)

lemma run_filter:
  "run w ops = run w (filter (\<lambda>op. \<not> samePackageReference (packageName w) op) ops)"
  unfolding run_def
proof (induction ops arbitrary: w)
  case Nil
  show ?case by simp
next
  case (Cons op ops)
  show ?case
  proof (cases "samePackageReference (packageName w) op")
    case True
    then show ?thesis
      using Cons [of w] by (simp add: step_samePackageReference)
  next
    case False
    then show ?thesis
      using Cons [of "step w op"] by (simp add: packageName_step)
  qed
qed

lemma registered_step:
  "set (imports (step w op)) \<union> set (references (step w op))
     = set (imports w) \<union> set (references w) \<union> {fqn. registers (packageName w) fqn op}"
  by (cases op)
     (auto simp: indent_def dedent_def write_def writeLine_def newLine_def
        writeNewLineIfLastLineNot_def addReference_def addImport_def Let_def set_Set_add
        split: option.splits)

lemma registered_run:
  "set (imports (run w ops)) \<union> set (references (run w ops))
     = set (imports w) \<union> set (references w)
       \<union> {fqn. \<exists>op \<in> set ops. registers (packageName w) fqn op}"
  unfolding run_def
proof (induction ops arbitrary: w)
  case Nil
  show ?case by simp
next
  case (Cons op ops)
  show ?case
    using Cons [of "step w op"] registered_step [of w op]
    by (auto simp: packageName_step)
qed

subsection \<open>Same-package suppression\<close>

text \<open>
  A qualified name \<^verbatim>\<open>`${packageName}.${name}`\<close> determines the package and the
  name when the names are simple, that is without a dot.
\<close>

lemma qualified_name_inj:
  assumes "CHR ''.'' \<notin> set b" and "CHR ''.'' \<notin> set d"
    and "a @ ''.'' @ b = c @ ''.'' @ d"
  shows "a = c \<and> b = d"
proof -
  have t: "takeWhile (\<lambda>x. x \<noteq> CHR ''.'') (rev (p @ ''.'' @ n)) = rev n"
    if "CHR ''.'' \<notin> set n" for p n
    using that by (auto simp: takeWhile_tail)
  have "rev b = takeWhile (\<lambda>x. x \<noteq> CHR ''.'') (rev (a @ ''.'' @ b))"
    by (simp only: t [OF assms(1)])
  also have "\<dots> = takeWhile (\<lambda>x. x \<noteq> CHR ''.'') (rev (c @ ''.'' @ d))"
    by (simp only: assms(3))
  also have "\<dots> = rev d"
    by (simp only: t [OF assms(2)])
  finally have "b = d" by simp
  with assms(3) show ?thesis by simp
qed

lemma imports_foldl_addReference: "imports (foldl addReference w rs) = imports w"
  by (induction rs arbitrary: w) (simp_all add: addReference_def)

lemma packageName_foldl_addReference: "packageName (foldl addReference w rs) = packageName w"
  by (induction rs arbitrary: w) (simp_all add: addReference_def)

lemma references_foldl_addReference:
  "set (references (foldl addReference w rs))
     = set (references w)
       \<union> {ref_packageName r @ ''.'' @ ref_name r | r.
            r \<in> set rs \<and> ref_packageName r \<noteq> packageName w}"
proof (induction rs arbitrary: w)
  case Nil
  show ?case by simp
next
  case (Cons r rs)
  have p: "packageName (addReference w r) = packageName w"
    by (simp add: addReference_def)
  show ?case
    unfolding foldl_Cons Cons [of "addReference w r"] p
    by (auto simp: addReference_def set_Set_add)
qed

lemma set_importBlock:
  "(importLine x \<in> set (importBlock w)) = (x \<in> set (imports w) \<union> set (references w))"
  using importLine_inj by (auto simp: importBlock_def set_allImports)

lemma own_package_name_not_imported:
  assumes "\<forall>x \<in> set rs. CHR ''.'' \<notin> set (ref_name x)"
    and "CHR ''.'' \<notin> set (ref_name r)"
    and "ref_packageName r = cfg_packageName config"
  shows "importLine (ref_packageName r @ ''.'' @ ref_name r)
           \<notin> set (importBlock (foldl addReference (Writer_new config) rs))"
proof
  let ?w = "Writer_new config"
  assume "importLine (ref_packageName r @ ''.'' @ ref_name r)
            \<in> set (importBlock (foldl addReference ?w rs))"
  then have "ref_packageName r @ ''.'' @ ref_name r
      \<in> set (imports (foldl addReference ?w rs)) \<union> set (references (foldl addReference ?w rs))"
    by (simp only: set_importBlock)
  then obtain x where x: "x \<in> set rs" "ref_packageName x \<noteq> cfg_packageName config"
      and e: "ref_packageName r @ ''.'' @ ref_name r = ref_packageName x @ ''.'' @ ref_name x"
    unfolding imports_foldl_addReference references_foldl_addReference
    by (auto simp: Writer_new_def)
  from x(1) assms(1) have "CHR ''.'' \<notin> set (ref_name x)" by blast
  from qualified_name_inj [OF assms(2) this e] have "ref_packageName r = ref_packageName x"
    by simp
  with x(2) assms(3) show False by simp
qed

text \<open>
  C1. A reference whose package is the Writer's own contributes nothing to the rendered
  document: for every sequence of operations, the import block and the whole document
  are those of the sequence from which every registration of a same-package reference has
  been removed, however many there were. Moreover, after any sequence of
  \<open>addReference\<close> calls with simple names on a fresh Writer, the import block has no
  line for a simple name qualified by the Writer's own package.
\<close>

theorem same_package_reference_contributes_nothing:
  "importBlock (run w ops)
     = importBlock (run w (filter (\<lambda>op. \<not> samePackageReference (packageName w) op) ops))
   \<and> toString (run w ops)
     = toString (run w (filter (\<lambda>op. \<not> samePackageReference (packageName w) op) ops))
   \<and> ((\<forall>x \<in> set rs. CHR ''.'' \<notin> set (ref_name x)) \<and> CHR ''.'' \<notin> set (ref_name r)
         \<and> ref_packageName r = cfg_packageName config
       \<longrightarrow> importLine (ref_packageName r @ ''.'' @ ref_name r)
             \<notin> set (importBlock (foldl addReference (Writer_new config) rs)))"
  using run_filter [of w ops] own_package_name_not_imported [of rs r config] by simp

theorem same_package_reference_contributes_nothing_witness:
  "toString (run (Writer_new \<lparr>cfg_packageName = ''com.example'', cfg_skipPackageDeclaration = None\<rparr>)
      [AddReference \<lparr>ref_name = ''Foo'', ref_packageName = ''com.example''\<rparr>,
       AddReference \<lparr>ref_name = ''List'', ref_packageName = ''java.util''\<rparr>,
       AddReference \<lparr>ref_name = ''Foo'', ref_packageName = ''com.example''\<rparr>])
     = ''package com.example;\<newline>\<newline>import java.util.List;\<newline>\<newline>''
   \<and> importLine ''com.example.Foo''
       \<notin> set (importBlock (foldl addReference (Writer_new \<lparr>cfg_packageName = ''com.example'', cfg_skipPackageDeclaration = None\<rparr>)
           [\<lparr>ref_name = ''Foo'', ref_packageName = ''com.example''\<rparr>,
            \<lparr>ref_name = ''List'', ref_packageName = ''java.util''\<rparr>,
            \<lparr>ref_name = ''Foo'', ref_packageName = ''com.example''\<rparr>]))"
proof -
  let ?foo = "\<lparr>ref_name = ''Foo'', ref_packageName = ''com.example''\<rparr>"
  let ?list = "\<lparr>ref_name = ''List'', ref_packageName = ''java.util''\<rparr>"
  let ?config = "\<lparr>cfg_packageName = ''com.example'', cfg_skipPackageDeclaration = None\<rparr>"
  note t = same_package_reference_contributes_nothing
    [where w = "Writer_new ?config"
       and ops = "[AddReference ?foo, AddReference ?list, AddReference ?foo]"
       and rs = "[?foo, ?list, ?foo]" and r = ?foo and config = ?config]
  have "toString (run (Writer_new ?config)
          [AddReference ?foo, AddReference ?list, AddReference ?foo])
      = toString (run (Writer_new ?config) [AddReference ?list])"
    using t [THEN conjunct2, THEN conjunct1] by (simp add: Writer_new_def)
  also have "\<dots> = ''package com.example;\<newline>\<newline>import java.util.List;\<newline>\<newline>''"
    by (simp add: Writer_new_def run_def addReference_def Set_add_def toString_def
        allImports_def Set_new_def importLine_def nl_def)
  finally have a: "toString (run (Writer_new ?config)
          [AddReference ?foo, AddReference ?list, AddReference ?foo])
      = ''package com.example;\<newline>\<newline>import java.util.List;\<newline>\<newline>''" .
  have b: "importLine ''com.example.Foo''
      \<notin> set (importBlock (foldl addReference (Writer_new ?config) [?foo, ?list, ?foo]))"
    using t [THEN conjunct2, THEN conjunct2] by simp
  from a b show ?thesis
    by (rule conjI)
qed

subsection \<open>Deduplication\<close>

text \<open>
  C2, as stated, fails for a reference of the Writer's own package: registered once through
  \<open>addReference\<close>, the name \<^verbatim>\<open>com.example.Foo\<close> has no import line in the
  document of a Writer for \<^verbatim>\<open>com.example\<close>.
\<close>

theorem same_package_reference_has_no_import_line:
  "count_list
     (importBlock (run (Writer_new \<lparr>cfg_packageName = ''com.example'', cfg_skipPackageDeclaration = None\<rparr>)
        [AddReference \<lparr>ref_name = ''Foo'', ref_packageName = ''com.example''\<rparr>]))
     (importLine ''com.example.Foo'') = 0
   \<and> toString (run (Writer_new \<lparr>cfg_packageName = ''com.example'', cfg_skipPackageDeclaration = None\<rparr>)
        [AddReference \<lparr>ref_name = ''Foo'', ref_packageName = ''com.example''\<rparr>])
     = ''package com.example;\<newline>\<newline>''"
  by (simp add: Writer_new_def run_def addReference_def toString_def allImports_def
      Set_new_def importBlock_def nl_def)

text \<open>
  C2, amended. When at least one operation of the sequence registers the fully-qualified
  name, through \<open>addImport\<close> or through \<open>addReference\<close> of a package other than the
  Writer's own, the import block holds exactly one line \<^verbatim>\<open>import <name>;\<close> for it,
  however often and in whatever mix it was registered.
\<close>

theorem registered_name_has_one_import_line:
  assumes "list_ex (registers (packageName w) fqn) ops"
  shows "count_list (importBlock (run w ops)) (importLine fqn) = 1"
proof -
  from assms have "fqn \<in> set (imports (run w ops)) \<union> set (references (run w ops))"
    unfolding registered_run by (auto simp: list_ex_iff)
  then show ?thesis
    by (simp add: count_importBlock)
qed

theorem registered_name_has_one_import_line_witness:
  "list_ex (registers ''com.example'' ''java.util.ArrayList'')
     [AddReference \<lparr>ref_name = ''ArrayList'', ref_packageName = ''java.util''\<rparr>,
      AddReference \<lparr>ref_name = ''ArrayList'', ref_packageName = ''java.util''\<rparr>,
      AddImport ''java.util.ArrayList'', AddImport ''java.util.ArrayList'']
   \<and> count_list
       (importBlock (run (Writer_new \<lparr>cfg_packageName = ''com.example'', cfg_skipPackageDeclaration = None\<rparr>)
          [AddReference \<lparr>ref_name = ''ArrayList'', ref_packageName = ''java.util''\<rparr>,
           AddReference \<lparr>ref_name = ''ArrayList'', ref_packageName = ''java.util''\<rparr>,
           AddImport ''java.util.ArrayList'', AddImport ''java.util.ArrayList'']))
       (importLine ''java.util.ArrayList'') = 1"
  using registered_name_has_one_import_line
    [of "Writer_new \<lparr>cfg_packageName = ''com.example'', cfg_skipPackageDeclaration = None\<rparr>" "''java.util.ArrayList''"
      "[AddReference \<lparr>ref_name = ''ArrayList'', ref_packageName = ''java.util''\<rparr>,
        AddReference \<lparr>ref_name = ''ArrayList'', ref_packageName = ''java.util''\<rparr>,
        AddImport ''java.util.ArrayList'', AddImport ''java.util.ArrayList'']"]
  by (simp add: Writer_new_def)

subsection \<open>Sort order\<close>

text \<open>
  C3. The import block consists of the lines of the registered names (explicit imports
  united with references) in strictly ascending lexicographic order: it is a function of
  the set of names alone, not of the order of registration, and it is the part of the
  document between the package declaration and the separator before the buffer.
\<close>

theorem import_lines_strictly_ascending:
  "importBlock w = map importLine (sorted_list_of_set (set (imports w) \<union> set (references w)))
   \<and> sorted_wrt (<) (sorted_list_of_set (set (imports w) \<union> set (references w)))
   \<and> toString w =
       (if skipPackageDeclaration w then [] else ''package '' @ packageName w @ '';'' @ nl @ nl)
       @ concat (map importLine (sorted_list_of_set (set (imports w) \<union> set (references w))))
       @ (if set (imports w) \<union> set (references w) = {} then [] else nl)
       @ buffer w"
proof -
  have b: "importBlock w
      = map importLine (sorted_list_of_set (set (imports w) \<union> set (references w)))"
    by (simp add: importBlock_def sort_allImports)
  have t: "toString w =
       (if skipPackageDeclaration w then [] else ''package '' @ packageName w @ '';'' @ nl @ nl)
       @ concat (map importLine (sorted_list_of_set (set (imports w) \<union> set (references w))))
       @ (if set (imports w) \<union> set (references w) = {} then [] else nl)
       @ buffer w"
    unfolding toString_decomp [of w] b allImports_empty_iff by (rule refl)
  have s: "sorted_wrt (<) (sorted_list_of_set (set (imports w) \<union> set (references w)))"
    by (simp add: strict_sorted_iff)
  from b s t show ?thesis by blast
qed

theorem import_lines_strictly_ascending_witness:
  "toString (run (Writer_new \<lparr>cfg_packageName = ''com.example'', cfg_skipPackageDeclaration = None\<rparr>)
      [AddImport ''javax.servlet.http.HttpServletRequest'',
       AddReference \<lparr>ref_name = ''List'', ref_packageName = ''java.util''\<rparr>,
       AddImport ''java.io.File''])
   = ''package com.example;\<newline>\<newline>import java.io.File;\<newline>import java.util.List;\<newline>import javax.servlet.http.HttpServletRequest;\<newline>\<newline>''"
  using import_lines_strictly_ascending
    [of "run (Writer_new \<lparr>cfg_packageName = ''com.example'', cfg_skipPackageDeclaration = None\<rparr>)
      [AddImport ''javax.servlet.http.HttpServletRequest'',
       AddReference \<lparr>ref_name = ''List'', ref_packageName = ''java.util''\<rparr>,
       AddImport ''java.io.File'']"]
  by (simp add: Writer_new_def run_def addReference_def addImport_def Set_add_def
      importLine_def nl_def sorted_list_of_set_sort_remdups)

subsection \<open>The blank line after the import block\<close>

text \<open>
  C4. In the rendered document the import block is followed by one new line, that is a
  blank line after its last line, exactly when the merged import set (explicit imports
  united with the surviving references) is not empty; when the set is empty the import
  block is empty and nothing stands between the package declaration and the buffer.
\<close>

theorem blank_line_after_imports:
  "toString w =
     (if skipPackageDeclaration w then [] else ''package '' @ packageName w @ '';'' @ nl @ nl)
     @ concat (importBlock w)
     @ (if set (imports w) \<union> set (references w) \<noteq> {} then nl else [])
     @ buffer w
   \<and> (importBlock w = []) = (set (imports w) \<union> set (references w) = {})"
proof -
  have "(importBlock w = []) = (allImports w = [])"
    by (simp add: importBlock_def sort_allImports flip: allImports_empty_iff set_allImports)
  then show ?thesis
    unfolding toString_decomp [of w] allImports_empty_iff by simp
qed

theorem blank_line_after_imports_witness:
  "toString (run (Writer_new \<lparr>cfg_packageName = ''com.example'', cfg_skipPackageDeclaration = Some True\<rparr>) [AddImport ''java.util.List'', Write ''class A {}''])
     = ''import java.util.List;\<newline>\<newline>class A {}''
   \<and> toString (run (Writer_new \<lparr>cfg_packageName = ''com.example'', cfg_skipPackageDeclaration = Some True\<rparr>) [Write ''class A {}'']) = ''class A {}''"
  using blank_line_after_imports
      [of "run (Writer_new \<lparr>cfg_packageName = ''com.example'', cfg_skipPackageDeclaration = Some True\<rparr>) [AddImport ''java.util.List'', Write ''class A {}'']"]
    blank_line_after_imports [of "run (Writer_new \<lparr>cfg_packageName = ''com.example'', cfg_skipPackageDeclaration = Some True\<rparr>) [Write ''class A {}'']"]
  by (simp add: Writer_new_def run_def addImport_def write_def Set_add_def importBlock_def
      allImports_def Set_new_def importLine_def nl_def)

subsection \<open>The package declaration\<close>

text \<open>
  C5, as stated, fails: a Writer for \<^verbatim>\<open>org.acme\<close> with suppression off, an empty
  import set and an empty buffer renders the package line followed by a blank line.
\<close>

theorem blank_line_after_package_without_content:
  "\<not> skipPackageDeclaration (Writer_new \<lparr>cfg_packageName = ''org.acme'', cfg_skipPackageDeclaration = Some False\<rparr>)
   \<and> importBlock (Writer_new \<lparr>cfg_packageName = ''org.acme'', cfg_skipPackageDeclaration = Some False\<rparr>) = []
   \<and> buffer (Writer_new \<lparr>cfg_packageName = ''org.acme'', cfg_skipPackageDeclaration = Some False\<rparr>) = []
   \<and> toString (Writer_new \<lparr>cfg_packageName = ''org.acme'', cfg_skipPackageDeclaration = Some False\<rparr>) = ''package org.acme;'' @ nl @ nl"
  by (simp add: Writer_new_def toString_def allImports_def Set_new_def importBlock_def)

text \<open>
  C5, amended. Whenever the package declaration is emitted, the document starts with the
  line \<^verbatim>\<open>package <name>;\<close> and a blank line, whatever follows; with an empty import
  set and an empty buffer the document is exactly these two lines.
\<close>

theorem package_line_always_followed_by_blank_line:
  assumes "\<not> skipPackageDeclaration w"
  shows "prefix (''package '' @ packageName w @ '';'' @ nl @ nl) (toString w)
    \<and> (set (imports w) \<union> set (references w) = {} \<and> buffer w = []
         \<longrightarrow> toString w = ''package '' @ packageName w @ '';'' @ nl @ nl)"
proof -
  have "set (imports w) \<union> set (references w) = {} \<Longrightarrow> importBlock w = []"
    by (simp add: importBlock_def sort_allImports)
  then show ?thesis
    using assms unfolding toString_decomp [of w] allImports_empty_iff
    by (auto simp: prefix_def)
qed

theorem package_line_always_followed_by_blank_line_witness:
  "\<not> skipPackageDeclaration (run (Writer_new \<lparr>cfg_packageName = ''org.acme'', cfg_skipPackageDeclaration = None\<rparr>) [Indent])
   \<and> toString (run (Writer_new \<lparr>cfg_packageName = ''org.acme'', cfg_skipPackageDeclaration = None\<rparr>) [Indent]) = ''package org.acme;\<newline>\<newline>''"
  using package_line_always_followed_by_blank_line [of "run (Writer_new \<lparr>cfg_packageName = ''org.acme'', cfg_skipPackageDeclaration = None\<rparr>) [Indent]"]
  by (simp add: Writer_new_def run_def indent_def nl_def)

subsection \<open>The empty document\<close>

lemma indent_dedent_step:
  assumes "op = Indent \<or> op = Dedent"
  shows "buffer (step w op) = buffer w \<and> imports (step w op) = imports w
     \<and> references (step w op) = references w \<and> packageName (step w op) = packageName w
     \<and> skipPackageDeclaration (step w op) = skipPackageDeclaration w"
  using assms by (cases "0 < indentLevel w") (auto simp: indent_def dedent_def)

lemma indent_dedent_run:
  assumes "set ops \<subseteq> {Indent, Dedent}"
  shows "buffer (run w ops) = buffer w \<and> imports (run w ops) = imports w
     \<and> references (run w ops) = references w \<and> packageName (run w ops) = packageName w
     \<and> skipPackageDeclaration (run w ops) = skipPackageDeclaration w"
  using assms unfolding run_def
proof (induction ops arbitrary: w)
  case Nil
  show ?case by simp
next
  case (Cons op ops)
  then have o: "op = Indent \<or> op = Dedent" and "set ops \<subseteq> {Indent, Dedent}"
    by auto
  then show ?case
    using Cons.IH [of "step w op"] indent_dedent_step [OF o, of w] by simp
qed

lemma toString_cong:
  assumes "buffer v = buffer w" "imports v = imports w" "references v = references w"
    "packageName v = packageName w" "skipPackageDeclaration v = skipPackageDeclaration w"
  shows "toString v = toString w"
  using assms by (simp add: toString_def allImports_def)

text \<open>
  C6. A Writer constructed for \<^verbatim>\<open>com.example\<close> with suppression off (the flag
  absent or false), on which no write, import or reference operation is performed (only
  \<open>indent\<close> and \<open>dedent\<close>, if anything), renders exactly
  \<^verbatim>\<open>"package com.example;\n\n"\<close>.
\<close>

theorem empty_document:
  assumes "set ops \<subseteq> {Indent, Dedent}" and "skip = None \<or> skip = Some False"
  shows "toString
      (run (Writer_new \<lparr>cfg_packageName = ''com.example'', cfg_skipPackageDeclaration = skip\<rparr>)
         ops)
     = ''package com.example;\<newline>\<newline>''"
proof -
  let ?w = "Writer_new \<lparr>cfg_packageName = ''com.example'', cfg_skipPackageDeclaration = skip\<rparr>"
  have "toString (run ?w ops) = toString ?w"
    using indent_dedent_run [OF assms(1), of ?w] by (intro toString_cong) simp_all
  also have "\<dots> = ''package com.example;\<newline>\<newline>''"
    using assms(2) by (auto simp: toString_def Writer_new_def allImports_def Set_new_def nl_def)
  finally show ?thesis .
qed

theorem empty_document_witness:
  "toString (run (Writer_new \<lparr>cfg_packageName = ''com.example'', cfg_skipPackageDeclaration = None\<rparr>) [Indent, Dedent, Dedent]) = ''package com.example;\<newline>\<newline>''
   \<and> toString (run (Writer_new \<lparr>cfg_packageName = ''com.example'', cfg_skipPackageDeclaration = None\<rparr>) []) = ''package com.example;\<newline>\<newline>''"
  using empty_document [of "[Indent, Dedent, Dedent]" None] empty_document [of "[]" None]
  by simp

subsection \<open>The indentation level\<close>

lemma indentLevel_step: "0 \<le> indentLevel w \<Longrightarrow> 0 \<le> indentLevel (step w op)"
  by (cases op)
     (simp_all add: indent_def dedent_def write_def writeLine_def newLine_def
        writeNewLineIfLastLineNot_def addReference_def addImport_def Let_def
        split: option.splits)

lemma indentLevel_run: "0 \<le> indentLevel w \<Longrightarrow> 0 \<le> indentLevel (run w ops)"
  unfolding run_def by (induction ops arbitrary: w) (simp_all add: indentLevel_step)

text \<open>
  C7. After every sequence of operations on a fresh Writer (of \<open>indent\<close> and
  \<open>dedent\<close> in particular) the indentation level is not negative; \<open>dedent\<close> at level
  zero returns the Writer unchanged, and the model has no failing branch there, as the
  source has none; no operation makes a level that is not negative negative.
\<close>

theorem indentLevel_never_negative:
  "0 \<le> indentLevel (run (Writer_new config) ops)
   \<and> (indentLevel w = 0 \<longrightarrow> dedent w = w)
   \<and> (0 \<le> indentLevel w \<longrightarrow> 0 \<le> indentLevel (step w op))"
proof -
  have "0 \<le> indentLevel (run (Writer_new config) ops)"
    by (rule indentLevel_run) (simp add: Writer_new_def)
  then show ?thesis
    by (simp add: dedent_def indentLevel_step)
qed

theorem indentLevel_never_negative_witness:
  "indentLevel (run (Writer_new \<lparr>cfg_packageName = ''com.example'', cfg_skipPackageDeclaration = None\<rparr>) [Dedent, Dedent, Indent, Dedent, Dedent]) = 0
   \<and> dedent (Writer_new \<lparr>cfg_packageName = ''com.example'', cfg_skipPackageDeclaration = None\<rparr>) = (Writer_new \<lparr>cfg_packageName = ''com.example'', cfg_skipPackageDeclaration = None\<rparr>)"
  using indentLevel_never_negative
    [of "\<lparr>cfg_packageName = ''com.example'', cfg_skipPackageDeclaration = None\<rparr>"
      "[Dedent, Dedent, Indent, Dedent, Dedent]" "Writer_new \<lparr>cfg_packageName = ''com.example'', cfg_skipPackageDeclaration = None\<rparr>" Dedent]
  by (simp add: Writer_new_def run_def indent_def dedent_def)

subsection \<open>The trailing new line\<close>

text \<open>
  C8. \<open>writeNewLineIfLastLineNot\<close> is idempotent; it appends a new line exactly when
  the buffer is not empty and does not end in one, and otherwise, on the empty buffer in
  particular, returns the Writer unchanged.
\<close>

theorem writeNewLineIfLastLineNot_idempotent:
  "writeNewLineIfLastLineNot (writeNewLineIfLastLineNot w) = writeNewLineIfLastLineNot w
   \<and> writeNewLineIfLastLineNot w
       = (if buffer w \<noteq> [] \<and> \<not> suffix nl (buffer w) then w\<lparr>buffer := buffer w @ nl\<rparr> else w)
   \<and> (buffer w = [] \<longrightarrow> writeNewLineIfLastLineNot w = w)"
proof -
  have l: "([buffer w ! (length (buffer w) - 1)] \<noteq> nl) = (\<not> suffix nl (buffer w))"
    if "buffer w \<noteq> []"
    using that by (cases "buffer w" rule: rev_cases) (auto simp: nl_def suffix_def)
  have c: "writeNewLineIfLastLineNot w
       = (if buffer w \<noteq> [] \<and> \<not> suffix nl (buffer w) then w\<lparr>buffer := buffer w @ nl\<rparr> else w)"
    using l by (auto simp: writeNewLineIfLastLineNot_def)
  have i: "writeNewLineIfLastLineNot (writeNewLineIfLastLineNot w) = writeNewLineIfLastLineNot w"
    by (simp add: writeNewLineIfLastLineNot_def nl_def)
  from c i show ?thesis
    by (simp add: writeNewLineIfLastLineNot_def)
qed

theorem writeNewLineIfLastLineNot_idempotent_witness:
  "buffer (writeNewLineIfLastLineNot (writeNewLineIfLastLineNot (write (Writer_new \<lparr>cfg_packageName = ''com.example'', cfg_skipPackageDeclaration = None\<rparr>) ''int x;'')))
     = ''int x;\<newline>''
   \<and> writeNewLineIfLastLineNot (Writer_new \<lparr>cfg_packageName = ''com.example'', cfg_skipPackageDeclaration = None\<rparr>) = (Writer_new \<lparr>cfg_packageName = ''com.example'', cfg_skipPackageDeclaration = None\<rparr>)"
proof -
  have "writeNewLineIfLastLineNot (writeNewLineIfLastLineNot (write (Writer_new \<lparr>cfg_packageName = ''com.example'', cfg_skipPackageDeclaration = None\<rparr>) ''int x;''))
      = writeNewLineIfLastLineNot (write (Writer_new \<lparr>cfg_packageName = ''com.example'', cfg_skipPackageDeclaration = None\<rparr>) ''int x;'')"
    by (rule writeNewLineIfLastLineNot_idempotent [THEN conjunct1])
  moreover have "buffer (writeNewLineIfLastLineNot (write (Writer_new \<lparr>cfg_packageName = ''com.example'', cfg_skipPackageDeclaration = None\<rparr>) ''int x;'')) = ''int x;\<newline>''"
    by (simp add: writeNewLineIfLastLineNot_def Writer_new_def write_def nl_def)
  moreover have "buffer (Writer_new \<lparr>cfg_packageName = ''com.example'', cfg_skipPackageDeclaration = None\<rparr>) = []"
    by (simp add: Writer_new_def)
  then have "writeNewLineIfLastLineNot (Writer_new \<lparr>cfg_packageName = ''com.example'', cfg_skipPackageDeclaration = None\<rparr>) = (Writer_new \<lparr>cfg_packageName = ''com.example'', cfg_skipPackageDeclaration = None\<rparr>)"
    using writeNewLineIfLastLineNot_idempotent [of "Writer_new \<lparr>cfg_packageName = ''com.example'', cfg_skipPackageDeclaration = None\<rparr>"] by blast
  ultimately show ?thesis
    by simp
qed

section \<open>Properties of the Class node\<close>

subsection \<open>What the operations append\<close>

lemma buffer_newLine: "buffer (newLine w) = buffer w @ nl"
  by (simp add: newLine_def)

lemma buffer_writeLine_None: "buffer (writeLine w None) = buffer w @ nl"
  by (simp add: writeLine_def)

lemma buffer_writeLine_Some:
  "buffer (writeLine w (Some t)) = buffer w @ getIndentation w @ t @ nl"
  by (simp add: writeLine_def)

lemma writeConstructor_closes:
  "\<exists>t. buffer (writeConstructor className w constructor) = t @ ''}'' @ nl"
  by (simp add: writeConstructor_def Let_def buffer_writeLine_Some)

lemma Class_write_closes: "\<exists>t. buffer (Class_write c w) = t @ ''}'' @ nl"
  by (cases c) (simp add: Let_def buffer_writeLine_Some)

subsection \<open>Evaluation on a Writer given by its fields\<close>

lemma eval_Writer:
  "indent \<lparr>indentLevel = i, buffer = b, imports = m, references = r, packageName = p,
      skipPackageDeclaration = k\<rparr>
   = \<lparr>indentLevel = i + 1, buffer = b, imports = m, references = r, packageName = p,
      skipPackageDeclaration = k\<rparr>"
  "dedent \<lparr>indentLevel = i, buffer = b, imports = m, references = r, packageName = p,
      skipPackageDeclaration = k\<rparr>
   = \<lparr>indentLevel = (if 0 < i then i - 1 else i), buffer = b, imports = m, references = r,
      packageName = p, skipPackageDeclaration = k\<rparr>"
  "write \<lparr>indentLevel = i, buffer = b, imports = m, references = r, packageName = p,
      skipPackageDeclaration = k\<rparr> t
   = \<lparr>indentLevel = i, buffer = b @ t, imports = m, references = r, packageName = p,
      skipPackageDeclaration = k\<rparr>"
  "writeLine \<lparr>indentLevel = i, buffer = b, imports = m, references = r, packageName = p,
      skipPackageDeclaration = k\<rparr> (Some t)
   = \<lparr>indentLevel = i, buffer = b @ repeat ''    '' i @ t @ nl, imports = m, references = r,
      packageName = p, skipPackageDeclaration = k\<rparr>"
  "writeLine \<lparr>indentLevel = i, buffer = b, imports = m, references = r, packageName = p,
      skipPackageDeclaration = k\<rparr> None
   = \<lparr>indentLevel = i, buffer = b @ nl, imports = m, references = r, packageName = p,
      skipPackageDeclaration = k\<rparr>"
  "newLine \<lparr>indentLevel = i, buffer = b, imports = m, references = r, packageName = p,
      skipPackageDeclaration = k\<rparr>
   = \<lparr>indentLevel = i, buffer = b @ nl, imports = m, references = r, packageName = p,
      skipPackageDeclaration = k\<rparr>"
  "addReference \<lparr>indentLevel = i, buffer = b, imports = m, references = r, packageName = p,
      skipPackageDeclaration = k\<rparr> \<lparr>ref_name = n, ref_packageName = q\<rparr>
   = \<lparr>indentLevel = i, buffer = b, imports = m,
      references = (if q = p then r else Set_add r (q @ ''.'' @ n)), packageName = p,
      skipPackageDeclaration = k\<rparr>"
  by (simp_all add: indent_def dedent_def write_def writeLine_def newLine_def addReference_def
      getIndentation_def)

lemma eval_repeat:
  "repeat s 0 = []"
  "repeat s 1 = s"
  "repeat s 2 = s @ s"
  by (simp_all add: repeat_def numeral_2_eq_2)

lemmas eval_Constructor = writeAnnotations_def writeConstructor_def
  writeConstructorHead_def writeConstructorCall_def writeConstructorJavadoc_def
  writeParameters_def writeReferences_def writeJavadocLines_def truthy_def eval_repeat nl_def
  Set_add_def Writer_new_def

subsection \<open>The order of the body sections\<close>

lemma Class_write_bodySections:
  "Class_write c w =
     writeLine
       (dedent (foldl (\<lambda>s member. member s) (writeClassHead (decl c) w) (bodySections c)))
       (Some ''}'')"
  by (cases c) (simp add: bodySections_def foldl_map Let_def)

lemma bodySections_blank_line:
  assumes "\<forall>m \<in> set (methods c) \<union> set (nestedInterfaces c) \<union> set (nestedEnums c).
             \<forall>s. suffix nl (buffer (m s))"
    and "member \<in> set (bodySections c)"
  shows "suffix (nl @ nl) (buffer (member s))"
proof -
  have n: "suffix nl (buffer x) \<Longrightarrow> suffix (nl @ nl) (buffer (newLine x))" for x
    by (auto simp: suffix_def buffer_newLine)
  have k: "suffix nl (buffer (writeConstructor (name (decl c)) s k))" for k
    using writeConstructor_closes [of "name (decl c)" s k] by (auto simp: suffix_def)
  have l: "suffix nl (buffer (Class_write x s))" for x
    using Class_write_closes [of x s] by (auto simp: suffix_def)
  have f: "suffix nl (buffer (writeLine x None))" for x
    by (simp add: suffix_def buffer_writeLine_None)
  from assms(2) consider
      (field) x where "member = (\<lambda>w. newLine (writeLine (x w) None))"
    | (ctor) x where "member = (\<lambda>w. newLine (writeConstructor (name (decl c)) w x))"
    | (cls) x where "member = (\<lambda>w. newLine (Class_write x w))"
    | (node) x where "x \<in> set (methods c) \<union> set (nestedInterfaces c) \<union> set (nestedEnums c)"
        and "member = (\<lambda>w. newLine (x w))"
    unfolding bodySections_def by auto
  then show ?thesis
  proof cases
    case field
    then show ?thesis using n [OF f] by simp
  next
    case ctor
    then show ?thesis using n [OF k] by simp
  next
    case cls
    then show ?thesis using n [OF l] by simp
  next
    case node
    then show ?thesis using n assms(1) by simp
  qed
qed

lemma add_members:
  "addField c f =
     Class (decl c) (fields c @ [f]) (constructors c) (methods c) (nestedClasses c)
       (nestedInterfaces c) (nestedEnums c)"
  "addConstructor c k =
     Class (decl c) (fields c) (constructors c @ [k]) (methods c) (nestedClasses c)
       (nestedInterfaces c) (nestedEnums c)"
  "addMethod c m =
     Class (decl c) (fields c) (constructors c) (methods c @ [m]) (nestedClasses c)
       (nestedInterfaces c) (nestedEnums c)"
  "addNestedClass c n =
     Class (decl c) (fields c) (constructors c) (methods c) (nestedClasses c @ [n])
       (nestedInterfaces c) (nestedEnums c)"
  "addNestedInterface c i =
     Class (decl c) (fields c) (constructors c) (methods c) (nestedClasses c)
       (nestedInterfaces c @ [i]) (nestedEnums c)"
  "addNestedEnum c e =
     Class (decl c) (fields c) (constructors c) (methods c) (nestedClasses c)
       (nestedInterfaces c) (nestedEnums c @ [e])"
  by (cases c; simp)+

lemma blank_line_after_newLine:
  "suffix (nl @ nl) (buffer (newLine x)) = suffix nl (buffer x)"
  by (simp add: buffer_newLine)

lemma blank_line_after_field:
  "suffix (nl @ nl) (buffer (newLine (writeLine x None)))"
  unfolding blank_line_after_newLine by (simp add: buffer_writeLine_None suffix_def)

lemma blank_line_after_constructor:
  "suffix (nl @ nl) (buffer (newLine (writeConstructor className s k)))"
  unfolding blank_line_after_newLine
  using writeConstructor_closes [of className s k] by (auto simp: suffix_def)

lemma blank_line_after_nested_class:
  "suffix (nl @ nl) (buffer (newLine (Class_write x s)))"
  unfolding blank_line_after_newLine
  using Class_write_closes [of x s] by (auto simp: suffix_def)

text \<open>
  C9, as stated, fails for members whose text does not end in a new line: the class
  \<open>exampleAbstractClass\<close> is rendered with its two methods on consecutive lines, since
  \<open>Class_write\<close> adds a single new line after a method.
\<close>

theorem methods_without_blank_line:
  "toString (Class_write exampleAbstractClass (Writer_new \<lparr>cfg_packageName = ''com.example'', cfg_skipPackageDeclaration = Some True\<rparr>))
     = ''public abstract class Shape {\<newline>public abstract void a();\<newline>public abstract void b();\<newline>}\<newline>''
   \<and> \<not> suffix (nl @ nl) (buffer (newLine (write (Writer_new \<lparr>cfg_packageName = ''com.example'', cfg_skipPackageDeclaration = Some True\<rparr>) ''public abstract void a();'')))"
proof -
  have "Class_write exampleAbstractClass (Writer_new \<lparr>cfg_packageName = ''com.example'', cfg_skipPackageDeclaration = Some True\<rparr>)
      = writeLine
          (dedent (foldl (\<lambda>s member. member s)
             (writeClassHead (decl exampleAbstractClass) (Writer_new \<lparr>cfg_packageName = ''com.example'', cfg_skipPackageDeclaration = Some True\<rparr>))
             (bodySections exampleAbstractClass)))
          (Some ''}'')"
    by (rule Class_write_bodySections)
  also have "\<dots>
      = \<lparr>indentLevel = 0,
         buffer = ''public abstract class Shape {\<newline>public abstract void a();\<newline>public abstract void b();\<newline>}\<newline>'',
         imports = [], references = [], packageName = ''com.example'',
         skipPackageDeclaration = True\<rparr>"
    by (simp add: exampleAbstractClass_def exampleArgs_def Class_new_def eval_Writer
        eval_Constructor writeClassHead_def bodySections_def)
  finally have "toString (Class_write exampleAbstractClass (Writer_new \<lparr>cfg_packageName = ''com.example'', cfg_skipPackageDeclaration = Some True\<rparr>))
     = ''public abstract class Shape {\<newline>public abstract void a();\<newline>public abstract void b();\<newline>}\<newline>''"
    by (simp add: toString_def allImports_def Set_new_def nl_def)
  moreover have
    "\<not> suffix (nl @ nl) (buffer (newLine (write (Writer_new \<lparr>cfg_packageName = ''com.example'', cfg_skipPackageDeclaration = Some True\<rparr>) ''public abstract void a();'')))"
    unfolding blank_line_after_newLine
    by (simp add: Writer_new_def write_def nl_def suffix_def)
  ultimately show ?thesis
    by (rule conjI)
qed

text \<open>
  C9, amended. \<open>Class_write\<close> writes the head of the class, then the members in the
  order of \<open>bodySections\<close> (fields, constructors, methods, nested classes, nested
  interfaces, nested enums, each section in the order of its array), then closes the
  class. Every \<^verbatim>\<open>add...\<close> method appends to the end of its own array and leaves the
  rest of the class as it was, so the order of a section is the order of addition. Every
  member is followed by one new line, a field by two: a blank line follows every field,
  every constructor and every nested class, and it follows a method, a nested interface
  or a nested enum exactly when the text that this member writes ends in a new line; when
  all of them do, a blank line follows every member of the body.
\<close>

theorem Class_write_sections_in_order:
  "Class_write c w =
     writeLine
       (dedent (foldl (\<lambda>s member. member s) (writeClassHead (decl c) w) (bodySections c)))
       (Some ''}'')
   \<and> ((\<forall>x \<in> set (methods c) \<union> set (nestedInterfaces c) \<union> set (nestedEnums c).
          \<forall>t. suffix nl (buffer (x t)))
       \<longrightarrow> (\<forall>member \<in> set (bodySections c). \<forall>t. suffix (nl @ nl) (buffer (member t))))
   \<and> addField c f =
       Class (decl c) (fields c @ [f]) (constructors c) (methods c) (nestedClasses c)
         (nestedInterfaces c) (nestedEnums c)
   \<and> addConstructor c k =
       Class (decl c) (fields c) (constructors c @ [k]) (methods c) (nestedClasses c)
         (nestedInterfaces c) (nestedEnums c)
   \<and> addMethod c m =
       Class (decl c) (fields c) (constructors c) (methods c @ [m]) (nestedClasses c)
         (nestedInterfaces c) (nestedEnums c)
   \<and> addNestedClass c n =
       Class (decl c) (fields c) (constructors c) (methods c) (nestedClasses c @ [n])
         (nestedInterfaces c) (nestedEnums c)
   \<and> addNestedInterface c i =
       Class (decl c) (fields c) (constructors c) (methods c) (nestedClasses c)
         (nestedInterfaces c @ [i]) (nestedEnums c)
   \<and> addNestedEnum c e =
       Class (decl c) (fields c) (constructors c) (methods c) (nestedClasses c)
         (nestedInterfaces c) (nestedEnums c @ [e])
   \<and> suffix (nl @ nl) (buffer (newLine (writeLine (f s) None)))
   \<and> suffix (nl @ nl) (buffer (newLine (writeConstructor (name (decl c)) s k)))
   \<and> suffix (nl @ nl) (buffer (newLine (Class_write n s)))
   \<and> (suffix (nl @ nl) (buffer (newLine (m s))) \<longleftrightarrow> suffix nl (buffer (m s)))"
proof -
  have o: "Class_write c w =
     writeLine
       (dedent (foldl (\<lambda>s member. member s) (writeClassHead (decl c) w) (bodySections c)))
       (Some ''}'')"
    by (rule Class_write_bodySections)
  have b: "(\<forall>x \<in> set (methods c) \<union> set (nestedInterfaces c) \<union> set (nestedEnums c).
          \<forall>t. suffix nl (buffer (x t)))
       \<longrightarrow> (\<forall>member \<in> set (bodySections c). \<forall>t. suffix (nl @ nl) (buffer (member t)))"
    using bodySections_blank_line [of c] by blast
  show ?thesis
    by (intro conjI o b add_members blank_line_after_field blank_line_after_constructor
        blank_line_after_nested_class blank_line_after_newLine)
qed

theorem Class_write_sections_in_order_witness:
  "toString (Class_write exampleClass (Writer_new \<lparr>cfg_packageName = ''com.example'', cfg_skipPackageDeclaration = Some True\<rparr>))
   = ''import java.io.IOException;\<newline>\<newline>public class Point {\<newline>    int x;\<newline>\<newline>    int y;\<newline>\<newline>    /**\<newline>     * @param x the abscissa\<newline>     */\<newline>public Point(int x) throws IOException     {\<newline>super(x        );\<newline>        this.x = x;\<newline>    }\<newline>\<newline>    int getX() { return x; }\<newline>\<newline>public class Inner     {\<newline>    }\<newline>\<newline>}\<newline>''
   \<and> suffix (nl @ nl)
       (buffer (newLine (writeLine (Writer_new \<lparr>cfg_packageName = ''com.example'', cfg_skipPackageDeclaration = Some True\<rparr>) (Some ''int getX() { return x; }''))))
   \<and> methods (addField exampleClass (\<lambda>w. write w ''    int z;'')) = methods exampleClass"
proof -
  note t = Class_write_sections_in_order
    [where c = exampleClass and w = "Writer_new \<lparr>cfg_packageName = ''com.example'', cfg_skipPackageDeclaration = Some True\<rparr>" and f = "\<lambda>w. write w ''    int z;''"]
  have h: "\<forall>x \<in> set (methods exampleClass) \<union> set (nestedInterfaces exampleClass)
                \<union> set (nestedEnums exampleClass).
             \<forall>t. suffix nl (buffer (x t))"
    by (simp add: exampleClass_def exampleArgs_def Class_new_def writeLine_def suffix_def)
  have "Class_write exampleClass (Writer_new \<lparr>cfg_packageName = ''com.example'', cfg_skipPackageDeclaration = Some True\<rparr>) =
           writeLine
             (dedent (foldl (\<lambda>s member. member s) (writeClassHead (decl exampleClass) (Writer_new \<lparr>cfg_packageName = ''com.example'', cfg_skipPackageDeclaration = Some True\<rparr>))
                (bodySections exampleClass)))
             (Some ''}'')"
    by (rule t [THEN conjunct1])
  also have "\<dots> = \<lparr>indentLevel = 0,
      buffer = ''public class Point {\<newline>    int x;\<newline>\<newline>    int y;\<newline>\<newline>    /**\<newline>     * @param x the abscissa\<newline>     */\<newline>public Point(int x) throws IOException     {\<newline>super(x        );\<newline>        this.x = x;\<newline>    }\<newline>\<newline>    int getX() { return x; }\<newline>\<newline>public class Inner     {\<newline>    }\<newline>\<newline>}\<newline>'',
      imports = [], references = [''java.io.IOException''], packageName = ''com.example'',
      skipPackageDeclaration = True\<rparr>"
    by (simp add: exampleClass_def exampleArgs_def exampleConstructor_def Class_new_def
        eval_Writer eval_Constructor writeClassHead_def bodySections_def)
  finally have a: "toString (Class_write exampleClass (Writer_new \<lparr>cfg_packageName = ''com.example'', cfg_skipPackageDeclaration = Some True\<rparr>))
   = ''import java.io.IOException;\<newline>\<newline>public class Point {\<newline>    int x;\<newline>\<newline>    int y;\<newline>\<newline>    /**\<newline>     * @param x the abscissa\<newline>     */\<newline>public Point(int x) throws IOException     {\<newline>super(x        );\<newline>        this.x = x;\<newline>    }\<newline>\<newline>    int getX() { return x; }\<newline>\<newline>public class Inner     {\<newline>    }\<newline>\<newline>}\<newline>''"
    by (simp add: toString_def allImports_def Set_new_def Set_add_def importLine_def nl_def)
  have all: "\<forall>member \<in> set (bodySections exampleClass).
      \<forall>t. suffix (nl @ nl) (buffer (member t))"
    using t [THEN conjunct2, THEN conjunct1] h by (rule mp)
  have "(\<lambda>w. newLine (writeLine w (Some ''int getX() { return x; }'')))
      \<in> set (bodySections exampleClass)"
    by (simp add: bodySections_def exampleClass_def exampleArgs_def Class_new_def)
  from all [rule_format, OF this, of "Writer_new \<lparr>cfg_packageName = ''com.example'', cfg_skipPackageDeclaration = Some True\<rparr>"]
  have b: "suffix (nl @ nl)
       (buffer (newLine (writeLine (Writer_new \<lparr>cfg_packageName = ''com.example'', cfg_skipPackageDeclaration = Some True\<rparr>) (Some ''int getX() { return x; }''))))"
    by simp
  have "addField exampleClass (\<lambda>w. write w ''    int z;'') =
       Class (decl exampleClass) (fields exampleClass @ [\<lambda>w. write w ''    int z;''])
         (constructors exampleClass) (methods exampleClass) (nestedClasses exampleClass)
         (nestedInterfaces exampleClass) (nestedEnums exampleClass)"
    by (rule t [THEN conjunct2, THEN conjunct2, THEN conjunct1])
  then have c: "methods (addField exampleClass (\<lambda>w. write w ''    int z;''))
      = methods exampleClass"
    by simp
  show ?thesis
    by (rule conjI [OF a conjI [OF b c]])
qed

subsection \<open>The call of the other constructor\<close>

lemma writeConstructorCall_super:
  "ctor_superCall constructor = Some superCall \<Longrightarrow>
   writeConstructorCall w constructor = writeLine (superCall (write w ''super('')) (Some '');'')"
  by (simp add: writeConstructorCall_def)

lemma writeConstructorJavadoc_thisCall:
  "writeConstructorJavadoc w (constructor\<lparr>ctor_thisCall := t\<rparr>)
     = writeConstructorJavadoc w constructor"
  by (simp add: writeConstructorJavadoc_def)

lemma writeConstructorHead_thisCall:
  "writeConstructorHead className w (constructor\<lparr>ctor_thisCall := t\<rparr>)
     = writeConstructorHead className w constructor"
  by (simp add: writeConstructorHead_def writeConstructorJavadoc_thisCall)

text \<open>
  C10. When a constructor supplies both \<^verbatim>\<open>superCall\<close> and \<^verbatim>\<open>thisCall\<close>, the
  call that \<open>writeConstructor\<close> writes after the opening brace is
  \<^verbatim>\<open>super(\<close>, the \<^verbatim>\<open>superCall\<close> block and \<^verbatim>\<open>);\<close>, followed by the body and
  the closing brace; the \<^verbatim>\<open>thisCall\<close> block is not written: the result is that of
  the same constructor without \<^verbatim>\<open>thisCall\<close>.
\<close>

theorem superCall_takes_precedence:
  assumes "ctor_superCall constructor = Some superCall"
    and "ctor_thisCall constructor = Some thisCall"
  shows "writeConstructorCall w constructor
        = writeLine (superCall (write w ''super('')) (Some '');'')
    \<and> writeConstructor className w constructor
        = writeConstructor className w (constructor\<lparr>ctor_thisCall := None\<rparr>)
    \<and> writeConstructor className w constructor
        = writeLine
            (dedent
              ((case ctor_body constructor of Some body \<Rightarrow> body | None \<Rightarrow> (\<lambda>w. w))
                (writeLine
                  (superCall (write (writeConstructorHead className w constructor) ''super(''))
                  (Some '');''))))
            (Some ''}'')"
proof (intro conjI)
  show "writeConstructorCall w constructor
      = writeLine (superCall (write w ''super('')) (Some '');'')"
    using assms(1) by (rule writeConstructorCall_super)
  have "ctor_superCall (constructor\<lparr>ctor_thisCall := None\<rparr>) = Some superCall"
    using assms(1) by simp
  then show "writeConstructor className w constructor
      = writeConstructor className w (constructor\<lparr>ctor_thisCall := None\<rparr>)"
    using assms(1)
    by (simp add: writeConstructor_def writeConstructorHead_thisCall writeConstructorCall_super)
  show "writeConstructor className w constructor
        = writeLine
            (dedent
              ((case ctor_body constructor of Some body \<Rightarrow> body | None \<Rightarrow> (\<lambda>w. w))
                (writeLine
                  (superCall (write (writeConstructorHead className w constructor) ''super(''))
                  (Some '');''))))
            (Some ''}'')"
    using assms(1)
    by (cases "ctor_body constructor")
       (simp_all add: writeConstructor_def writeConstructorCall_super)
qed

theorem superCall_takes_precedence_witness:
  "writeConstructor ''Point'' (Writer_new \<lparr>cfg_packageName = ''com.example'', cfg_skipPackageDeclaration = None\<rparr>) exampleConstructor
     = writeConstructor ''Point'' (Writer_new \<lparr>cfg_packageName = ''com.example'', cfg_skipPackageDeclaration = None\<rparr>) (exampleConstructor\<lparr>ctor_thisCall := None\<rparr>)
   \<and> buffer (writeConstructor ''Point'' (Writer_new \<lparr>cfg_packageName = ''com.example'', cfg_skipPackageDeclaration = None\<rparr>) exampleConstructor)
     = ''/**\<newline> * @param x the abscissa\<newline> */\<newline>public Point(int x) throws IOException {\<newline>super(x    );\<newline>    this.x = x;\<newline>}\<newline>''"
proof -
  have s: "ctor_superCall exampleConstructor = Some (\<lambda>w. write w ''x'')"
    and t: "ctor_thisCall exampleConstructor = Some (\<lambda>w. write w ''0'')"
    by (simp_all add: exampleConstructor_def)
  have e: "writeConstructor ''Point'' (Writer_new \<lparr>cfg_packageName = ''com.example'', cfg_skipPackageDeclaration = None\<rparr>) exampleConstructor
        = writeConstructor ''Point'' (Writer_new \<lparr>cfg_packageName = ''com.example'', cfg_skipPackageDeclaration = None\<rparr>) (exampleConstructor\<lparr>ctor_thisCall := None\<rparr>)"
    by (rule superCall_takes_precedence [OF s t, THEN conjunct2, THEN conjunct1])
  have "writeConstructor ''Point'' (Writer_new \<lparr>cfg_packageName = ''com.example'', cfg_skipPackageDeclaration = None\<rparr>) exampleConstructor
    = \<lparr>indentLevel = 0,
       buffer = ''/**\<newline> * @param x the abscissa\<newline> */\<newline>public Point(int x) throws IOException {\<newline>super(x    );\<newline>    this.x = x;\<newline>}\<newline>'',
       imports = [], references = [''java.io.IOException''], packageName = ''com.example'',
       skipPackageDeclaration = False\<rparr>"
    by (simp add: exampleConstructor_def eval_Writer eval_Constructor)
  then have "buffer (writeConstructor ''Point'' (Writer_new \<lparr>cfg_packageName = ''com.example'', cfg_skipPackageDeclaration = None\<rparr>) exampleConstructor)
    = ''/**\<newline> * @param x the abscissa\<newline> */\<newline>public Point(int x) throws IOException {\<newline>super(x    );\<newline>    this.x = x;\<newline>}\<newline>''"
    by simp
  with e show ?thesis
    by (rule conjI)
qed

end
